theory Spec2Isabelle
  imports Main "HOL-Library.Char_ord" "HOL-Library.List_Lexorder" "HOL-Library.Multiset"
begin

section \<open>Request values\<close>

text \<open>
  The fields of \<open>req.body\<close> are JSON values. The handlers observe only their truthiness,
  strict equality with \<open>true\<close>, and the string method \<open>trim\<close>. \<open>JNum\<close> keeps the one
  fact a number is asked for (being zero or not); \<open>JObj\<close> stands for every object and
  array: truthy, and without a \<open>trim\<close> method. A field that is absent reads as
  \<open>JUndefined\<close>.

  A string is a list of 8-bit characters; \<open>isWhiteSpace\<close> holds the code units below 256
  that \<open>String.prototype.trim\<close> strips (TAB, LF, VT, FF, CR, SP, NBSP).
\<close>

datatype json = JUndefined | JNull | JBool bool | JNum int | JStr string | JObj

type_synonym body = "string \<Rightarrow> json"

fun truthy :: "json \<Rightarrow> bool" where
  "truthy JUndefined = False"
| "truthy JNull = False"
| "truthy (JBool b) = b"
| "truthy (JNum n) = (n \<noteq> 0)"
| "truthy (JStr s) = (s \<noteq> [])"
| "truthy JObj = True"

definition isWhiteSpace :: "char \<Rightarrow> bool" where
  "isWhiteSpace c = ((of_char c :: nat) \<in> {9, 10, 11, 12, 13, 32, 160})"

definition trim :: "string \<Rightarrow> string" where
  "trim s = rev (dropWhile isWhiteSpace (rev (dropWhile isWhiteSpace s)))"

text \<open>What a handler throws into its \<open>catch\<close> block: the error of the store call at a
  numbered call site, a \<open>TypeError\<close>, or \<open>new Error(msg)\<close>.\<close>

datatype exn = StoreError nat | TypeError | Error string

subsection \<open>utils/validate.js\<close>

datatype validation = Valid | Invalid string

text \<open>
  \<open>validateRequiredFields\<close>: the loop over \<open>fields\<close> returns at the first field that is
  falsy or trims to the empty string. \<open>data[field].trim()\<close> on a truthy value that is not
  a string throws a \<open>TypeError\<close> (\<open>Inl\<close>).
\<close>

fun validateRequiredFields :: "body \<Rightarrow> string list \<Rightarrow> exn + validation" where
  "validateRequiredFields data [] = Inr Valid"
| "validateRequiredFields data (field # fields) =
     (if \<not> truthy (data field) then Inr (Invalid (field @ '' is required''))
      else case data field of
        JStr s \<Rightarrow>
          if trim s = [] then Inr (Invalid (field @ '' is required''))
          else validateRequiredFields data fields
      | _ \<Rightarrow> Inl TypeError)"

section \<open>The store\<close>

text \<open>
  The three tables of \<open>config/database.sql\<close>, each a list of rows in table order (an
  insert appends, an update rewrites rows in place). Identifiers are the text of the
  UUIDs; \<open>created_at\<close> is a count of microseconds, the resolution of a Postgres
  \<open>TIMESTAMP\<close>.
\<close>

type_synonym uuid = string
type_synonym timestamp = nat

record user_row =
  u_id :: uuid
  u_email :: string
  u_password :: string
  u_created_at :: timestamp

record profile =
  p_id :: uuid
  p_user_id :: uuid
  p_name :: string
  p_role :: string
  p_created_at :: timestamp

record message =
  m_id :: uuid
  sender_id :: uuid
  receiver_id :: uuid
  m_message :: string
  deleted_for_sender :: bool
  deleted_for_receiver :: bool
  m_created_at :: timestamp

record db =
  users :: "user_row list"
  profiles :: "profile list"
  messages :: "message list"

text \<open>\<open>.single()\<close>: exactly one row, otherwise the store answers with an error.\<close>

fun single :: "'a list \<Rightarrow> 'a option" where
  "single [x] = Some x"
| "single _ = None"

text \<open>
  A store call can also fail for reasons outside the tables (transport, service). Each
  handler takes \<open>flt\<close>, which says for every call site of the handler, numbered in source
  order from 0, whether that call fails this way.
\<close>

definition no_fault :: "nat \<Rightarrow> bool" where
  "no_fault = (\<lambda>_. False)"

section \<open>Replies\<close>

text \<open>The response envelope: status code, \<open>success\<close>, \<open>message\<close> (when present) and the
  \<open>data\<close> or \<open>error\<close> member.\<close>

record registered =
  r_id :: uuid
  r_email :: string
  r_name :: string
  r_role :: string
  r_created_at :: timestamp
  r_token :: string

datatype payload =
    NoData
  | Profiles "profile list"
  | Messages "message list"
  | NewMessage message
  | Registered registered
  | Thrown exn

datatype reply = Reply nat bool "string option" payload

fun status :: "reply \<Rightarrow> nat" where
  "status (Reply c _ _ _) = c"


section \<open>controllers/messagesController.js\<close>

text \<open>
  The handlers are those of the controller that enforces the access rules and keeps the
  two delete flags (the file that also defines \<open>deleteMessage\<close>). \<open>req.user.userId\<close>,
  set by the authentication middleware, is the argument \<open>authenticatedUserId\<close> or
  \<open>sender\<close>.
\<close>

subsection \<open>getConversation\<close>

text \<open>
  \<open>new Date(created_at)\<close> holds milliseconds; the comparator of the sort subtracts two
  such dates. \<open>Array.prototype.sort\<close> is stable (ECMAScript 2019), so the sorted array is
  the stable sort of the concatenation by that key. A query without \<open>order\<close> returns its
  rows in table order.
\<close>

definition jsDate :: "timestamp \<Rightarrow> nat" where
  "jsDate t = t div 1000"

definition sentMessages :: "db \<Rightarrow> uuid \<Rightarrow> uuid \<Rightarrow> message list" where
  "sentMessages d authenticatedUserId otherUserId =
     filter (\<lambda>m. sender_id m = authenticatedUserId \<and> receiver_id m = otherUserId
                 \<and> deleted_for_sender m = False) (messages d)"

definition receivedMessages :: "db \<Rightarrow> uuid \<Rightarrow> uuid \<Rightarrow> message list" where
  "receivedMessages d authenticatedUserId otherUserId =
     filter (\<lambda>m. sender_id m = otherUserId \<and> receiver_id m = authenticatedUserId
                 \<and> deleted_for_receiver m = False) (messages d)"

definition getConversation :: "(nat \<Rightarrow> bool) \<Rightarrow> db \<Rightarrow> uuid \<Rightarrow> uuid \<Rightarrow> reply" where
  "getConversation flt d authenticatedUserId otherUserId =
     (if flt 0 then
        Reply 500 False (Some ''Error fetching conversation'') (Thrown (StoreError 0))
      else if flt 1 then
        Reply 500 False (Some ''Error fetching conversation'') (Thrown (StoreError 1))
      else
        Reply 200 True None
          (Messages (sort_key (\<lambda>m. jsDate (m_created_at m))
             (sentMessages d authenticatedUserId otherUserId
              @ receivedMessages d authenticatedUserId otherUserId))))"

subsection \<open>getUsers\<close>

text \<open>\<open>Set.prototype.add\<close> on the insertion-ordered set of identifiers.\<close>

definition set_add :: "uuid \<Rightarrow> uuid list \<Rightarrow> uuid list" where
  "set_add x xs = (if x \<in> set xs then xs else xs @ [x])"

definition conversedUserIds :: "uuid \<Rightarrow> message list \<Rightarrow> uuid list" where
  "conversedUserIds authenticatedUserId messageData =
     fold (\<lambda>msg ids.
             if sender_id msg = authenticatedUserId then set_add (receiver_id msg) ids
             else if receiver_id msg = authenticatedUserId then set_add (sender_id msg) ids
             else ids)
          messageData []"

definition otherOwners :: "db \<Rightarrow> uuid \<Rightarrow> profile list" where
  "otherOwners d authenticatedUserId =
     sort_key p_name
       (filter (\<lambda>p. p_role p = ''owner'' \<and> p_user_id p \<noteq> authenticatedUserId) (profiles d))"

definition users_failed :: "exn \<Rightarrow> reply" where
  "users_failed e = Reply 500 False (Some ''Error fetching users'') (Thrown e)"

definition getUsers :: "(nat \<Rightarrow> bool) \<Rightarrow> db \<Rightarrow> uuid \<Rightarrow> reply" where
  "getUsers flt d authenticatedUserId =
     (case (if flt 0 then None
            else single (filter (\<lambda>p. p_user_id p = authenticatedUserId) (profiles d))) of
        None \<Rightarrow> users_failed (Error ''Could not find user profile'')
      | Some currentProfile \<Rightarrow>
          let currentUserRole = p_role currentProfile in
          if currentUserRole = ''housekeeper'' then
            (if flt 1 then users_failed (StoreError 1)
             else Reply 200 True None (Profiles (otherOwners d authenticatedUserId)))
          else if currentUserRole = ''owner'' then
            (if flt 2 then users_failed (StoreError 2)
             else if flt 3 then users_failed (StoreError 3)
             else
               let allOwners = otherOwners d authenticatedUserId;
                   messageData =
                     filter (\<lambda>m. sender_id m = authenticatedUserId
                                 \<or> receiver_id m = authenticatedUserId) (messages d);
                   ids = conversedUserIds authenticatedUserId messageData
               in
                 if ids \<noteq> [] then
                   (if flt 4 then users_failed (StoreError 4)
                    else Reply 200 True None
                      (Profiles (allOwners @
                         sort_key p_name
                           (filter (\<lambda>p. p_role p = ''housekeeper'' \<and> p_user_id p \<in> set ids)
                              (profiles d)))))
                 else Reply 200 True None (Profiles (allOwners @ [])))
          else Reply 200 True None (Profiles []))"

subsection \<open>sendMessage\<close>

definition send_failed :: "exn \<Rightarrow> reply" where
  "send_failed e = Reply 500 False (Some ''Error sending message'') (Thrown e)"

text \<open>
  The access rules of \<open>sendMessage\<close>, from the lookup of the sender's role to the end of
  the owner branch. \<open>None\<close>: no reply was sent and control reaches the insert. The two
  \<open>limit(1)\<close> queries are call sites 3 and 4; \<open>throw sentError || receivedError\<close> raises
  the first of the two errors.
\<close>

definition conversationGate :: "(nat \<Rightarrow> bool) \<Rightarrow> db \<Rightarrow> uuid \<Rightarrow> uuid \<Rightarrow> reply option" where
  "conversationGate flt d sender receiver =
     (case (if flt 1 then None
            else single (filter (\<lambda>p. p_user_id p = sender) (profiles d))) of
        None \<Rightarrow> Some (Reply 400 False (Some ''Sender profile not found'') NoData)
      | Some senderProfile \<Rightarrow>
          let senderRole = p_role senderProfile in
          if senderRole = ''owner'' then
            (case (if flt 2 then None
                   else single (filter (\<lambda>p. p_user_id p = receiver) (profiles d))) of
               None \<Rightarrow> Some (Reply 404 False (Some ''Receiver not found'') NoData)
             | Some receiverProfile \<Rightarrow>
                 if p_role receiverProfile = ''housekeeper'' then
                   (let sent = take 1 (filter (\<lambda>m. sender_id m = sender
                                                  \<and> receiver_id m = receiver) (messages d));
                        received = take 1 (filter (\<lambda>m. sender_id m = receiver
                                                      \<and> receiver_id m = sender) (messages d))
                    in
                      if flt 3 then Some (send_failed (StoreError 3))
                      else if flt 4 then Some (send_failed (StoreError 4))
                      else
                        let hasConversation = (length sent > 0 \<or> length received > 0) in
                        if \<not> hasConversation then
                          Some (Reply 403 False
                            (Some ''You can only message housekeepers who have messaged you first'')
                            NoData)
                        else None)
                 else None)
          else None)"

text \<open>
  The insert into \<open>messages\<close>. The store draws the primary key \<open>newId\<close> and the
  \<open>created_at\<close> default \<open>now\<close>; it refuses a duplicate key and a sender or receiver
  that is no row of \<open>users\<close> (the foreign keys of the table).
\<close>

definition insert_message ::
  "uuid \<Rightarrow> timestamp \<Rightarrow> db \<Rightarrow> uuid \<Rightarrow> uuid \<Rightarrow> string \<Rightarrow> (message \<times> db) option" where
  "insert_message newId now d sender receiver text =
     (if newId \<in> m_id ` set (messages d)
         \<or> sender \<notin> u_id ` set (users d) \<or> receiver \<notin> u_id ` set (users d)
      then None
      else
        let row = \<lparr>m_id = newId, sender_id = sender, receiver_id = receiver,
                   m_message = text, deleted_for_sender = False,
                   deleted_for_receiver = False, m_created_at = now\<rparr>
        in Some (row, d\<lparr>messages := messages d @ [row]\<rparr>))"

text \<open>The insert (call site 5) and the reply that follows it.\<close>

definition send_insert ::
  "(nat \<Rightarrow> bool) \<Rightarrow> uuid \<Rightarrow> timestamp \<Rightarrow> db \<Rightarrow> uuid \<Rightarrow> uuid \<Rightarrow> string \<Rightarrow> reply \<times> db" where
  "send_insert flt newId now d sender receiver text =
     (case (if flt 5 then None else insert_message newId now d sender receiver text) of
        None \<Rightarrow> (send_failed (StoreError 5), d)
      | Some (newMessage, d') \<Rightarrow>
          (Reply 201 True (Some ''Message sent successfully'') (NewMessage newMessage), d'))"

text \<open>
  \<open>sendMessage\<close>. After the validator has accepted the body both fields are strings; the
  other cases of the two \<open>case\<close>s below are what the same statements do on a value that
  is no string (\<open>message.trim\<close> is not a function; no user row has such an id).
\<close>

definition sendMessage ::
  "(nat \<Rightarrow> bool) \<Rightarrow> uuid \<Rightarrow> timestamp \<Rightarrow> db \<Rightarrow> uuid \<Rightarrow> body \<Rightarrow> reply \<times> db" where
  "sendMessage flt newId now d sender b =
     (let receiver_id = b ''receiver_id''; message = b ''message'' in
      case validateRequiredFields b [''receiver_id'', ''message''] of
        Inl e \<Rightarrow> (send_failed e, d)
      | Inr (Invalid msg) \<Rightarrow> (Reply 400 False (Some msg) NoData, d)
      | Inr Valid \<Rightarrow>
          (case message of
             JStr text \<Rightarrow>
               if trim text = [] then
                 (Reply 400 False (Some ''Message cannot be empty'') NoData, d)
               else
                 (case (case receiver_id of
                          JStr receiver \<Rightarrow>
                            if flt 0 then None
                            else map_option u_id
                                   (single (filter (\<lambda>u. u_id u = receiver) (users d)))
                        | _ \<Rightarrow> None) of
                    None \<Rightarrow> (Reply 404 False (Some ''Receiver not found'') NoData, d)
                  | Some receiver \<Rightarrow>
                      if sender = receiver then
                        (Reply 400 False (Some ''Cannot send message to yourself'') NoData, d)
                      else
                        (case conversationGate flt d sender receiver of
                           Some r \<Rightarrow> (r, d)
                         | None \<Rightarrow> send_insert flt newId now d sender receiver (trim text)))
           | _ \<Rightarrow> (send_failed TypeError, d)))"

subsection \<open>deleteMessage\<close>

definition delete_failed :: "exn \<Rightarrow> reply" where
  "delete_failed e = Reply 500 False (Some ''Error deleting message'') (Thrown e)"

text \<open>\<open>.update(f).eq('id', messageId)\<close>: every row with that id is rewritten in place.\<close>

definition update_message :: "uuid \<Rightarrow> (message \<Rightarrow> message) \<Rightarrow> db \<Rightarrow> db" where
  "update_message messageId f d =
     d\<lparr>messages := map (\<lambda>m. if m_id m = messageId then f m else m) (messages d)\<rparr>"

definition deleteMessage ::
  "(nat \<Rightarrow> bool) \<Rightarrow> db \<Rightarrow> uuid \<Rightarrow> uuid \<Rightarrow> body \<Rightarrow> reply \<times> db" where
  "deleteMessage flt d authenticatedUserId messageId b =
     (let deleteForEveryone = b ''deleteForEveryone'' in
      case (if flt 0 then None
            else single (filter (\<lambda>m. m_id m = messageId) (messages d))) of
        None \<Rightarrow> (Reply 404 False (Some ''Message not found'') NoData, d)
      | Some message \<Rightarrow>
          if sender_id message \<noteq> authenticatedUserId
             \<and> receiver_id message \<noteq> authenticatedUserId then
            (Reply 403 False (Some ''Unauthorized to delete this message'') NoData, d)
          else if deleteForEveryone = JBool True then
            (if sender_id message \<noteq> authenticatedUserId then
               (Reply 403 False
                  (Some ''Only the sender can delete messages for everyone'') NoData, d)
             else if flt 1 then (delete_failed (StoreError 1), d)
             else
               (Reply 200 True (Some ''Message deleted for everyone'') NoData,
                update_message messageId
                  (\<lambda>m. m\<lparr>deleted_for_sender := True, deleted_for_receiver := True\<rparr>) d))
          else
            (let updateData =
                   (if sender_id message = authenticatedUserId
                    then (\<lambda>m. m\<lparr>deleted_for_sender := True\<rparr>)
                    else (\<lambda>m. m\<lparr>deleted_for_receiver := True\<rparr>))
             in
               if flt 2 then (delete_failed (StoreError 2), d)
               else
                 (Reply 200 True
                    (Some (if truthy deleteForEveryone then ''Message deleted for everyone''
                           else ''Message deleted for you'')) NoData,
                  update_message messageId updateData d)))"

section \<open>Signup\<close>

subsection \<open>utils/validate.js, continued\<close>

text \<open>
  \<open>isValidEmail\<close> tests the regular expression \<open>^[^\s@]+@[^\s@]+\.[^\s@]+$\<close>: a
  non-empty part without white space before the only \<open>@\<close>, and after it white-space-free
  text holding a dot that is neither its first nor its last character.
\<close>

definition isValidEmail :: "string \<Rightarrow> bool" where
  "isValidEmail email =
     (let local = takeWhile (\<lambda>c. c \<noteq> CHR ''@'') email;
          rest = dropWhile (\<lambda>c. c \<noteq> CHR ''@'') email
      in local \<noteq> [] \<and> (\<forall>c \<in> set local. \<not> isWhiteSpace c)
         \<and> rest \<noteq> []
         \<and> (\<forall>c \<in> set (tl rest). \<not> isWhiteSpace c \<and> c \<noteq> CHR ''@'')
         \<and> CHR ''.'' \<in> set (butlast (tl (tl rest))))"

definition isValidPassword :: "string \<Rightarrow> bool" where
  "isValidPassword password = (password \<noteq> [] \<and> length password \<ge> 6)"

definition isValidRole :: "string \<Rightarrow> bool" where
  "isValidRole role = (role = ''owner'' \<or> role = ''housekeeper'')"

text \<open>\<open>String.prototype.toLowerCase\<close> on code units below 256: the letters A to Z and the
  capital letters of Latin-1 move up by 32.\<close>

definition lowerChar :: "char \<Rightarrow> char" where
  "lowerChar c =
     (let n = (of_char c :: nat) in
      if (65 \<le> n \<and> n \<le> 90) \<or> (192 \<le> n \<and> n \<le> 222 \<and> n \<noteq> 215)
      then char_of (n + 32) else c)"

definition toLowerCase :: "string \<Rightarrow> string" where
  "toLowerCase s = map lowerChar s"

subsection \<open>The tables of config/database.sql under insert and delete\<close>

text \<open>
  \<open>users\<close>: primary key \<open>id\<close>, \<open>email\<close> unique. \<open>profiles\<close>: primary key \<open>id\<close>,
  \<open>user_id\<close> unique and a key of \<open>users\<close>, \<open>role\<close> checked to be one of the two role
  names. Deleting a user cascades to the profiles and messages that refer to it.
\<close>

definition insert_user ::
  "uuid \<Rightarrow> timestamp \<Rightarrow> db \<Rightarrow> string \<Rightarrow> string \<Rightarrow> (user_row \<times> db) option" where
  "insert_user newId now d email password =
     (if newId \<in> u_id ` set (users d) \<or> email \<in> u_email ` set (users d) then None
      else
        let row = \<lparr>u_id = newId, u_email = email, u_password = password,
                   u_created_at = now\<rparr>
        in Some (row, d\<lparr>users := users d @ [row]\<rparr>))"

definition insert_profile ::
  "uuid \<Rightarrow> timestamp \<Rightarrow> db \<Rightarrow> uuid \<Rightarrow> string \<Rightarrow> string \<Rightarrow> (profile \<times> db) option" where
  "insert_profile newId now d user name role =
     (if newId \<in> p_id ` set (profiles d)
         \<or> user \<in> p_user_id ` set (profiles d)
         \<or> user \<notin> u_id ` set (users d)
         \<or> role \<notin> {''owner'', ''housekeeper''}
      then None
      else
        let row = \<lparr>p_id = newId, p_user_id = user, p_name = name, p_role = role,
                   p_created_at = now\<rparr>
        in Some (row, d\<lparr>profiles := profiles d @ [row]\<rparr>))"

definition delete_user :: "uuid \<Rightarrow> db \<Rightarrow> db" where
  "delete_user user d =
     \<lparr>users = filter (\<lambda>u. u_id u \<noteq> user) (users d),
      profiles = filter (\<lambda>p. p_user_id p \<noteq> user) (profiles d),
      messages = filter (\<lambda>m. sender_id m \<noteq> user \<and> receiver_id m \<noteq> user) (messages d)\<rparr>"

subsection \<open>The signup controller\<close>

definition signup_failed :: "exn \<Rightarrow> reply" where
  "signup_failed e = Reply 500 False (Some ''Error registering user'') (Thrown e)"

text \<open>
  \<open>hashPassword\<close> (utils/bcrypt) and \<open>generateToken\<close> (the signature of the JWT library)
  are taken as parameters. The store draws the two primary keys and the two
  \<open>created_at\<close> defaults. Call sites: 0 the lookup by email, 1 the insert of the user,
  2 the insert of the profile, 3 the delete that undoes the insert of the user; the
  result of call 3 is not inspected. The validator accepts strings only, so the last
  case of the \<open>case\<close> on the four fields is never reached.
\<close>

definition signup ::
  "(string \<Rightarrow> string) \<Rightarrow> (uuid \<Rightarrow> string \<Rightarrow> string \<Rightarrow> string) \<Rightarrow> (nat \<Rightarrow> bool)
     \<Rightarrow> uuid \<Rightarrow> timestamp \<Rightarrow> uuid \<Rightarrow> timestamp \<Rightarrow> db \<Rightarrow> body \<Rightarrow> reply \<times> db" where
  "signup hashPassword generateToken flt newUserId userNow newProfileId profileNow d b =
     (case validateRequiredFields b [''email'', ''password'', ''name'', ''role''] of
        Inl e \<Rightarrow> (signup_failed e, d)
      | Inr (Invalid msg) \<Rightarrow> (Reply 400 False (Some msg) NoData, d)
      | Inr Valid \<Rightarrow>
          (case (b ''email'', b ''password'', b ''name'', b ''role'') of
             (JStr email, JStr password, JStr name, JStr role) \<Rightarrow>
               if \<not> isValidEmail email then
                 (Reply 400 False (Some ''Invalid email format'') NoData, d)
               else if \<not> isValidPassword password then
                 (Reply 400 False
                    (Some ''Password must be at least 6 characters long'') NoData, d)
               else if \<not> isValidRole role then
                 (Reply 400 False
                    (Some (''Role must be either 'owner' or 'housekeeper'' @ [CHR 0x27]))
                    NoData, d)
               else if flt 0 then (signup_failed (StoreError 0), d)
               else
                 (case single (filter (\<lambda>u. u_email u = toLowerCase email) (users d)) of
                    Some existingUser \<Rightarrow>
                      (Reply 409 False (Some ''User with this email already exists'') NoData, d)
                  | None \<Rightarrow>
                      let hashedPassword = hashPassword password in
                      (case (if flt 1 then None
                             else insert_user newUserId userNow d
                                    (toLowerCase email) hashedPassword) of
                         None \<Rightarrow> (signup_failed (StoreError 1), d)
                       | Some (user, d1) \<Rightarrow>
                           (case (if flt 2 then None
                                  else insert_profile newProfileId profileNow d1
                                         (u_id user) (trim name) role) of
                              None \<Rightarrow>
                                (signup_failed (StoreError 2),
                                 if flt 3 then d1 else delete_user (u_id user) d1)
                            | Some (profile, d2) \<Rightarrow>
                                (Reply 201 True (Some ''User registered successfully'')
                                   (Registered
                                      \<lparr>r_id = u_id user, r_email = u_email user,
                                       r_name = p_name profile, r_role = p_role profile,
                                       r_created_at = u_created_at user,
                                       r_token = generateToken (u_id user) (u_email user)
                                                   (p_role profile)\<rparr>),
                                 d2))))
           | _ \<Rightarrow> (signup_failed TypeError, d)))"

section \<open>Notions of the specification\<close>

text \<open>
  The conversation-existence test of the specification: a message row from \<open>a\<close> to \<open>b\<close>
  or from \<open>b\<close> to \<open>a\<close>, whatever its delete flags.
\<close>

definition hasConversation :: "db \<Rightarrow> uuid \<Rightarrow> uuid \<Rightarrow> bool" where
  "hasConversation d a b =
     (\<exists>m \<in> set (messages d).
        (sender_id m = a \<and> receiver_id m = b) \<or> (sender_id m = b \<and> receiver_id m = a))"


section \<open>Example stores\<close>

text \<open>Two owners (Zoe, Carl) and two housekeepers (Amy, Dora). Amy once wrote to Zoe;
  both sides have since deleted that message.\<close>

definition zoe :: profile where
  "zoe = \<lparr>p_id = ''p1'', p_user_id = ''u-zoe'', p_name = ''Zoe'', p_role = ''owner'',
          p_created_at = 1000000\<rparr>"

definition carl :: profile where
  "carl = \<lparr>p_id = ''p2'', p_user_id = ''u-carl'', p_name = ''Carl'', p_role = ''owner'',
           p_created_at = 2000000\<rparr>"

definition amy :: profile where
  "amy = \<lparr>p_id = ''p3'', p_user_id = ''u-amy'', p_name = ''Amy'', p_role = ''housekeeper'',
          p_created_at = 3000000\<rparr>"

definition dora :: profile where
  "dora = \<lparr>p_id = ''p4'', p_user_id = ''u-dora'', p_name = ''Dora'',
           p_role = ''housekeeper'', p_created_at = 4000000\<rparr>"

definition user_of :: "profile \<Rightarrow> user_row" where
  "user_of p = \<lparr>u_id = p_user_id p, u_email = p_user_id p @ ''@example.org'',
                u_password = ''hash'', u_created_at = p_created_at p\<rparr>"

definition amy_to_zoe :: message where
  "amy_to_zoe = \<lparr>m_id = ''m1'', sender_id = ''u-amy'', receiver_id = ''u-zoe'',
     m_message = ''hi'', deleted_for_sender = True, deleted_for_receiver = True,
     m_created_at = 5000000\<rparr>"

definition contacts_db :: db where
  "contacts_db = \<lparr>users = map user_of [zoe, carl, amy, dora],
                  profiles = [zoe, carl, amy, dora],
                  messages = [amy_to_zoe]\<rparr>"

text \<open>Two messages with the same \<open>created_at\<close>: Amy's was inserted first, Zoe's answer
  second.\<close>

definition amy_first :: message where
  "amy_first = \<lparr>m_id = ''m1'', sender_id = ''u-amy'', receiver_id = ''u-zoe'',
     m_message = ''hi'', deleted_for_sender = False, deleted_for_receiver = False,
     m_created_at = 42000000\<rparr>"

definition zoe_second :: message where
  "zoe_second = \<lparr>m_id = ''m2'', sender_id = ''u-zoe'', receiver_id = ''u-amy'',
     m_message = ''hello'', deleted_for_sender = False, deleted_for_receiver = False,
     m_created_at = 42000000\<rparr>"

definition tie_db :: db where
  "tie_db = \<lparr>users = map user_of [zoe, amy], profiles = [zoe, amy],
             messages = [amy_first, zoe_second]\<rparr>"



text \<open>Request bodies of \<open>deleteMessage\<close>, and a store in which Amy has already deleted
  her message on her own side.\<close>

definition for_everyone :: body where
  "for_everyone = (\<lambda>_. JUndefined)(''deleteForEveryone'' := JBool True)"

definition for_me :: body where
  "for_me = (\<lambda>_. JUndefined)(''deleteForEveryone'' := JBool False)"



text \<open>The body of a send request with both fields.\<close>

definition send_body :: "uuid \<Rightarrow> string \<Rightarrow> body" where
  "send_body receiver text =
     (\<lambda>_. JUndefined)(''receiver_id'' := JStr receiver, ''message'' := JStr text)"

text \<open>
  A signup request, a store in which the insert into \<open>profiles\<close> fails, and stand-ins
  for the password hash and the token signature.
\<close>

definition signup_body :: "string \<Rightarrow> string \<Rightarrow> string \<Rightarrow> string \<Rightarrow> body" where
  "signup_body email password name role =
     (\<lambda>_. JUndefined)(''email'' := JStr email, ''password'' := JStr password,
                        ''name'' := JStr name, ''role'' := JStr role)"

definition profile_insert_fails :: "nat \<Rightarrow> bool" where
  "profile_insert_fails = (\<lambda>site. site = 2)"

definition nia_body :: body where
  "nia_body = signup_body ''Nia@Example.org'' ''secret1'' '' Nia '' ''owner''"

definition nia_row :: "string \<Rightarrow> user_row" where
  "nia_row h = \<lparr>u_id = ''u-nia'', u_email = ''nia@example.org'', u_password = h,
                u_created_at = 8000000\<rparr>"

definition example_hash :: "string \<Rightarrow> string" where
  "example_hash password = ''hashed:'' @ password"

definition example_token :: "uuid \<Rightarrow> string \<Rightarrow> string \<Rightarrow> string" where
  "example_token user email role = user @ ''.'' @ role"

text \<open>Two messages within one millisecond, the later one sent by Zoe.\<close>

definition zoe_late :: message where
  "zoe_late = \<lparr>m_id = ''m3'', sender_id = ''u-zoe'', receiver_id = ''u-amy'',
     m_message = ''later'', deleted_for_sender = False, deleted_for_receiver = False,
     m_created_at = 42000900\<rparr>"

definition amy_early :: message where
  "amy_early = \<lparr>m_id = ''m4'', sender_id = ''u-amy'', receiver_id = ''u-zoe'',
     m_message = ''earlier'', deleted_for_sender = False, deleted_for_receiver = False,
     m_created_at = 42000100\<rparr>"

definition submilli_db :: db where
  "submilli_db = \<lparr>users = map user_of [zoe, amy], profiles = [zoe, amy],
                  messages = [amy_early, zoe_late]\<rparr>"

section \<open>Auxiliary facts\<close>

lemma single_SomeD: "single xs = Some c \<Longrightarrow> xs = [c]"
  by (cases xs rule: single.cases) auto

lemma single_filter_unique:
  assumes "single (filter P xs) = Some c" and "x \<in> set xs" and "P x"
  shows "x = c"
proof -
  from assms(1) have "filter P xs = [c]" by (rule single_SomeD)
  moreover from assms(2,3) have "x \<in> set (filter P xs)" by simp
  ultimately show "x = c" by simp
qed

lemma set_add_set: "set (set_add x xs) = insert x (set xs)"
  by (auto simp: set_add_def)

lemma fold_conversed_set:
  "set (fold (\<lambda>msg ids.
             if sender_id msg = u then set_add (receiver_id msg) ids
             else if receiver_id msg = u then set_add (sender_id msg) ids
             else ids) ms acc)
   = set acc \<union> {receiver_id m | m. m \<in> set ms \<and> sender_id m = u}
             \<union> {sender_id m | m. m \<in> set ms \<and> sender_id m \<noteq> u \<and> receiver_id m = u}"
  by (induction ms arbitrary: acc) (auto simp: set_add_set)

lemma conversed_iff:
  "x \<noteq> u \<Longrightarrow>
   x \<in> set (conversedUserIds u
              (filter (\<lambda>m. sender_id m = u \<or> receiver_id m = u) (messages d)))
     \<longleftrightarrow> hasConversation d u x"
  unfolding conversedUserIds_def fold_conversed_set hasConversation_def
  by auto

lemma sorted_otherOwners: "sorted (map p_name (otherOwners d u))"
  by (simp add: otherOwners_def)

lemma mset_otherOwners:
  "mset (otherOwners d u)
     = mset (filter (\<lambda>p. p_role p = ''owner'' \<and> p_user_id p \<noteq> u) (profiles d))"
  by (simp add: otherOwners_def)

lemma messages_update_message:
  "messages (update_message mid f d)
     = map (\<lambda>x. if m_id x = mid then f x else x) (messages d)"
  by (simp add: update_message_def)

lemma update_message_frame:
  "users (update_message mid f d) = users d"
  "profiles (update_message mid f d) = profiles d"
  by (simp_all add: update_message_def)

lemma in_map_if:
  "x \<in> set (map (\<lambda>y. if P y then f y else y) xs)
     \<longleftrightarrow> (\<exists>y \<in> set xs. P y \<and> x = f y) \<or> (x \<in> set xs \<and> \<not> P x)"
  by (induction xs) auto

lemma conversation_members:
  "getConversation no_fault d u other = Reply 200 True None (Messages ms) \<Longrightarrow> x \<in> set ms \<Longrightarrow>
     x \<in> set (messages d) \<and> (\<not> deleted_for_sender x \<or> \<not> deleted_for_receiver x)"
  by (auto simp: getConversation_def no_fault_def sentMessages_def receivedMessages_def)


lemma flags_after_update:
  assumes "x \<in> set (messages (update_message mid
               (\<lambda>m. m\<lparr>deleted_for_sender := True, deleted_for_receiver := True\<rparr>) d))"
    and "m_id x = mid"
  shows "deleted_for_sender x \<and> deleted_for_receiver x"
proof -
  from assms(1) have "(\<exists>y \<in> set (messages d). m_id y = mid
        \<and> x = y\<lparr>deleted_for_sender := True, deleted_for_receiver := True\<rparr>)
      \<or> (x \<in> set (messages d) \<and> m_id x \<noteq> mid)"
    unfolding messages_update_message in_map_if .
  with assms(2) obtain y where "x = y\<lparr>deleted_for_sender := True, deleted_for_receiver := True\<rparr>"
    by blast
  then show ?thesis by simp
qed

lemma take1_nonempty: "(0 < length (take 1 xs)) \<longleftrightarrow> xs \<noteq> []"
  by (cases xs) auto

lemma gate_hasConversation:
  "(0 < length (take 1 (filter (\<lambda>m. sender_id m = s \<and> receiver_id m = r) (messages d)))
    \<or> 0 < length (take 1 (filter (\<lambda>m. sender_id m = r \<and> receiver_id m = s) (messages d))))
   \<longleftrightarrow> hasConversation d s r"
  unfolding take1_nonempty hasConversation_def by (auto simp: filter_empty_conv)

lemma conversationGate_not_owner:
  assumes "single (filter (\<lambda>p. p_user_id p = s) (profiles d)) = Some sp"
    and "p_role sp \<noteq> ''owner''"
  shows "conversationGate no_fault d s r = None"
  using assms by (simp add: conversationGate_def no_fault_def)

lemma conversationGate_owner:
  assumes "single (filter (\<lambda>p. p_user_id p = s) (profiles d)) = Some sp"
    and "p_role sp = ''owner''"
    and "single (filter (\<lambda>p. p_user_id p = r) (profiles d)) = Some rp"
  shows "conversationGate no_fault d s r =
           (if p_role rp = ''housekeeper'' \<and> \<not> hasConversation d s r
            then Some (Reply 403 False
                   (Some ''You can only message housekeepers who have messaged you first'')
                   NoData)
            else None)"
  unfolding conversationGate_def Let_def gate_hasConversation
  using assms by (simp add: no_fault_def)

lemma validated_string:
  "validateRequiredFields b fs = Inr Valid \<Longrightarrow> f \<in> set fs \<Longrightarrow>
     \<exists>s. b f = JStr s \<and> trim s \<noteq> []"
  by (induction fs) (auto split: if_splits json.splits)

lemma sendMessage_checked:
  assumes valid: "validateRequiredFields b [''receiver_id'', ''message''] = Inr Valid"
    and rcv: "b ''receiver_id'' = JStr r"
    and msg: "b ''message'' = JStr text"
    and found: "single (filter (\<lambda>u. u_id u = r) (users d)) = Some ru"
    and notself: "s \<noteq> r"
  shows "sendMessage no_fault newId now d s b =
           (case conversationGate no_fault d s r of
              Some rep \<Rightarrow> (rep, d)
            | None \<Rightarrow> send_insert no_fault newId now d s r (trim text))"
proof -
  from validated_string [OF valid, of "''message''"] msg have nonblank: "trim text \<noteq> []"
    by simp
  from found have "filter (\<lambda>u. u_id u = r) (users d) = [ru]" by (rule single_SomeD)
  then have "ru \<in> set (filter (\<lambda>u. u_id u = r) (users d))" by simp
  then have id: "u_id ru = r" by simp
  show ?thesis
    unfolding sendMessage_def Let_def valid msg rcv
    using nonblank found notself id by (simp add: no_fault_def)
qed

lemma invalid_names_field:
  "validateRequiredFields b fs = Inr (Invalid msg) \<Longrightarrow> \<exists>f \<in> set fs. msg = f @ '' is required''"
  by (induction fs) (auto split: if_splits json.splits)

lemma conversationGate_reply:
  "conversationGate flt d s r = Some rep \<Longrightarrow>
     rep \<noteq> Reply 400 False (Some ''Message cannot be empty'') NoData"
  by (auto simp: conversationGate_def Let_def send_failed_def split: option.splits if_splits)

lemma send_insert_reply:
  "fst (send_insert flt newId now d s r t)
     \<noteq> Reply 400 False (Some ''Message cannot be empty'') NoData"
  by (simp add: send_insert_def send_failed_def split: option.splits prod.splits)

lemma validate_throws_TypeError:
  "validateRequiredFields b fs = Inl e \<Longrightarrow> e = TypeError"
  by (induction fs) (auto split: if_splits json.splits)

lemma insert_user_undone:
  assumes "insert_user newId now d email password = Some (row, d1)"
  shows "u_id row = newId" and "users (delete_user newId d1) = users d"
    and "newId \<notin> u_id ` set (users (delete_user newId d1))"
    and "row \<in> set (users d1)"
proof -
  from assms have fresh: "newId \<notin> u_id ` set (users d)"
    and row: "row = \<lparr>u_id = newId, u_email = email, u_password = password, u_created_at = now\<rparr>"
    and d1: "d1 = d\<lparr>users := users d @ [row]\<rparr>"
    by (auto simp: insert_user_def Let_def split: if_splits)
  from row show "u_id row = newId" by simp
  from fresh have "filter (\<lambda>u. u_id u \<noteq> newId) (users d) = users d"
    by (auto simp: filter_id_conv)
  with row d1 show "users (delete_user newId d1) = users d"
    by (simp add: delete_user_def)
  show "newId \<notin> u_id ` set (users (delete_user newId d1))"
    by (auto simp: delete_user_def)
  from d1 show "row \<in> set (users d1)" by simp
qed

lemma nia_fields:
  "nia_body ''email'' = JStr ''Nia@Example.org''"
  "nia_body ''password'' = JStr ''secret1''"
  "nia_body ''name'' = JStr '' Nia ''"
  "nia_body ''role'' = JStr ''owner''"
  by (simp_all add: nia_body_def signup_body_def)

lemma nia_valid:
  "validateRequiredFields nia_body [''email'', ''password'', ''name'', ''role''] = Inr Valid"
  by (simp add: nia_fields trim_def isWhiteSpace_def)

lemma nia_checks:
  "isValidEmail ''Nia@Example.org''" "isValidPassword ''secret1''" "isValidRole ''owner''"
  by (simp_all add: isValidEmail_def isWhiteSpace_def isValidPassword_def isValidRole_def)

lemma nia_lower: "toLowerCase ''Nia@Example.org'' = ''nia@example.org''"
  by code_simp

lemma nia_new:
  "single (filter (\<lambda>u. u_email u = ''nia@example.org'') (users contacts_db)) = None"
  by (simp add: contacts_db_def user_of_def zoe_def carl_def amy_def dora_def)

lemma nia_user:
  "insert_user ''u-nia'' 8000000 contacts_db ''nia@example.org'' h
     = Some (nia_row h, contacts_db\<lparr>users := users contacts_db @ [nia_row h]\<rparr>)"
proof -
  have "''u-nia'' \<notin> u_id ` set (users contacts_db)"
    and "''nia@example.org'' \<notin> u_email ` set (users contacts_db)"
    by (simp_all add: contacts_db_def user_of_def zoe_def carl_def amy_def dora_def)
  then show ?thesis
    by (simp add: insert_user_def nia_row_def Let_def)
qed

lemma nia_run:
  "fst (signup hashPassword generateToken profile_insert_fails
          ''u-nia'' 8000000 ''p5'' 8000001 contacts_db nia_body)
     = signup_failed (StoreError 2)"
  unfolding signup_def nia_valid nia_fields
  by (simp add: nia_checks nia_lower nia_new nia_user profile_insert_fails_def Let_def)

subsection \<open>The regular expression of isValidEmail\<close>

text \<open>The definition of \<open>isValidEmail\<close> accepts exactly the strings the regular expression
  matches: three non-empty runs of characters that are neither white space nor \<open>@\<close>,
  the first two separated by \<open>@\<close>, the last two by a dot.\<close>

lemma isValidEmail_iff:
  "isValidEmail email \<longleftrightarrow>
     (\<exists>a b c. email = a @ ''@'' @ b @ ''.'' @ c \<and> a \<noteq> [] \<and> b \<noteq> [] \<and> c \<noteq> []
        \<and> (\<forall>x \<in> set (a @ b @ c). \<not> isWhiteSpace x \<and> x \<noteq> CHR ''@''))"
proof
  assume v: "isValidEmail email"
  define a where "a = takeWhile (\<lambda>c. c \<noteq> CHR ''@'') email"
  define rest where "rest = dropWhile (\<lambda>c. c \<noteq> CHR ''@'') email"
  from v have "a \<noteq> [] \<and> (\<forall>x \<in> set a. \<not> isWhiteSpace x)
       \<and> rest \<noteq> [] \<and> (\<forall>x \<in> set (tl rest). \<not> isWhiteSpace x \<and> x \<noteq> CHR ''@'')
       \<and> CHR ''.'' \<in> set (butlast (tl (tl rest)))"
    unfolding isValidEmail_def Let_def a_def rest_def .
  then have a: "a \<noteq> []" "\<forall>x \<in> set a. \<not> isWhiteSpace x"
    and rest: "rest \<noteq> []" "\<forall>x \<in> set (tl rest). \<not> isWhiteSpace x \<and> x \<noteq> CHR ''@''"
    and dot: "CHR ''.'' \<in> set (butlast (tl (tl rest)))"
    by blast+
  have a_at: "\<forall>x \<in> set a. x \<noteq> CHR ''@''"
    unfolding a_def by (auto dest: set_takeWhileD)
  from rest(1) have "hd rest = CHR ''@''"
    unfolding rest_def using hd_dropWhile [of "\<lambda>c. c \<noteq> CHR ''@''" email] by blast
  with rest(1) obtain dom where rest_eq: "rest = CHR ''@'' # dom"
    by (cases rest) auto
  from dot rest_eq obtain h t where dom: "dom = h # t"
    by (cases dom) auto
  from dot rest_eq dom obtain t' l where t: "t = t' @ [l]"
    by (cases t rule: rev_cases) auto
  from dot rest_eq dom t have "CHR ''.'' \<in> set t'" by simp
  then obtain p q where t': "t' = p @ CHR ''.'' # q"
    by (auto simp: in_set_conv_decomp)
  have "email = a @ rest" by (simp add: a_def rest_def)
  then have split: "email = a @ ''@'' @ (h # p) @ ''.'' @ (q @ [l])"
    by (simp add: rest_eq dom t t')
  from rest(2) have "\<forall>x \<in> set ((h # p) @ (q @ [l])). \<not> isWhiteSpace x \<and> x \<noteq> CHR ''@''"
    by (simp add: rest_eq dom t t')
  with a a_at have "\<forall>x \<in> set (a @ (h # p) @ (q @ [l])). \<not> isWhiteSpace x \<and> x \<noteq> CHR ''@''"
    by auto
  with split a(1) show "\<exists>a b c. email = a @ ''@'' @ b @ ''.'' @ c \<and> a \<noteq> [] \<and> b \<noteq> [] \<and> c \<noteq> []
        \<and> (\<forall>x \<in> set (a @ b @ c). \<not> isWhiteSpace x \<and> x \<noteq> CHR ''@'')"
    by blast
next
  assume "\<exists>a b c. email = a @ ''@'' @ b @ ''.'' @ c \<and> a \<noteq> [] \<and> b \<noteq> [] \<and> c \<noteq> []
        \<and> (\<forall>x \<in> set (a @ b @ c). \<not> isWhiteSpace x \<and> x \<noteq> CHR ''@'')"
  then obtain a b c where e: "email = a @ CHR ''@'' # b @ CHR ''.'' # c"
    and ne: "a \<noteq> []" "b \<noteq> []" "c \<noteq> []"
    and cls: "\<forall>x \<in> set (a @ b @ c). \<not> isWhiteSpace x \<and> x \<noteq> CHR ''@''"
    by auto
  from cls have "takeWhile (\<lambda>c. c \<noteq> CHR ''@'') email = a"
    unfolding e by (simp add: takeWhile_tail)
  moreover from cls have "dropWhile (\<lambda>c. c \<noteq> CHR ''@'') email = CHR ''@'' # b @ CHR ''.'' # c"
    unfolding e by (simp add: dropWhile_append3)
  moreover have "\<not> isWhiteSpace CHR ''.''" by (simp add: isWhiteSpace_def)
  moreover from ne have "CHR ''.'' \<in> set (butlast (tl (b @ CHR ''.'' # c)))"
    by (cases b) (auto simp: butlast_append)
  ultimately show "isValidEmail email"
    using ne cls by (auto simp: isValidEmail_def Let_def)
qed

subsection \<open>Sender and receiver of a stored message differ\<close>

text \<open>\<open>sendMessage\<close> refuses a message to oneself, and \<open>deleteMessage\<close> writes flags only:
  when sender and receiver differ in every row, they still do after either handler.\<close>

lemma send_insert_distinct_parties:
  assumes "\<forall>m \<in> set (messages d). sender_id m \<noteq> receiver_id m" and "s \<noteq> r"
  shows "\<forall>m \<in> set (messages (snd (send_insert flt newId now d s r t))).
           sender_id m \<noteq> receiver_id m"
  using assms
  by (auto simp: send_insert_def insert_message_def Let_def split: if_splits)

lemma sendMessage_distinct_parties:
  assumes inv: "\<forall>m \<in> set (messages d). sender_id m \<noteq> receiver_id m"
  shows "\<forall>m \<in> set (messages (snd (sendMessage flt newId now d s b))).
           sender_id m \<noteq> receiver_id m"
proof -
  have "snd (sendMessage flt newId now d s b) = d
      \<or> (\<exists>r t. s \<noteq> r \<and> snd (sendMessage flt newId now d s b)
                              = snd (send_insert flt newId now d s r t))"
    by (auto simp: sendMessage_def Let_def
        split: sum.splits validation.splits json.splits option.splits if_splits)
  with inv send_insert_distinct_parties [OF inv] show ?thesis
    by metis
qed

lemma deleteMessage_distinct_parties:
  assumes inv: "\<forall>m \<in> set (messages d). sender_id m \<noteq> receiver_id m"
  shows "\<forall>m \<in> set (messages (snd (deleteMessage flt d r mid b))).
           sender_id m \<noteq> receiver_id m"
proof -
  have keep: "\<forall>m \<in> set (messages (update_message mid f d)). sender_id m \<noteq> receiver_id m"
    if "\<And>x. sender_id (f x) = sender_id x \<and> receiver_id (f x) = receiver_id x" for f
    unfolding messages_update_message using inv that by (auto simp: in_map_if)
  have both: "\<forall>m \<in> set (messages (update_message mid
      (\<lambda>m. m\<lparr>deleted_for_sender := True, deleted_for_receiver := True\<rparr>) d)).
      sender_id m \<noteq> receiver_id m"
    by (rule keep) simp
  have mine: "\<forall>m \<in> set (messages (update_message mid
      (\<lambda>m. m\<lparr>deleted_for_sender := True\<rparr>) d)). sender_id m \<noteq> receiver_id m"
    by (rule keep) simp
  have theirs: "\<forall>m \<in> set (messages (update_message mid
      (\<lambda>m. m\<lparr>deleted_for_receiver := True\<rparr>) d)). sender_id m \<noteq> receiver_id m"
    by (rule keep) simp
  have "snd (deleteMessage flt d r mid b) = d
      \<or> snd (deleteMessage flt d r mid b) = update_message mid
          (\<lambda>m. m\<lparr>deleted_for_sender := True, deleted_for_receiver := True\<rparr>) d
      \<or> snd (deleteMessage flt d r mid b)
          = update_message mid (\<lambda>m. m\<lparr>deleted_for_sender := True\<rparr>) d
      \<or> snd (deleteMessage flt d r mid b)
          = update_message mid (\<lambda>m. m\<lparr>deleted_for_receiver := True\<rparr>) d"
    by (simp add: deleteMessage_def Let_def split: option.splits)
  with inv both mine theirs show ?thesis
    by (elim disjE) simp_all
qed

section \<open>Contact lists\<close>

text \<open>
  Claim C7. A requester whose stored role is housekeeper gets, with status 200, exactly
  the profiles whose role is owner (each as often as the table holds it), ascending by
  name; the list holds neither the requester nor any housekeeper profile.
\<close>

theorem getUsers_housekeeper:
  assumes cur: "single (filter (\<lambda>p. p_user_id p = u) (profiles d)) = Some cp"
    and role: "p_role cp = ''housekeeper''"
  shows "\<exists>ps. getUsers no_fault d u = Reply 200 True None (Profiles ps)
            \<and> mset ps = mset (filter (\<lambda>p. p_role p = ''owner'') (profiles d))
            \<and> sorted (map p_name ps)
            \<and> (\<forall>p \<in> set ps. p_user_id p \<noteq> u \<and> p_role p \<noteq> ''housekeeper'')"
proof -
  have notme: "p_user_id p \<noteq> u" if "p \<in> set (profiles d)" "p_role p = ''owner''" for p
  proof
    assume "p_user_id p = u"
    with cur that(1) have "p = cp" by (rule single_filter_unique)
    with role that(2) show False by simp
  qed
  have eq: "filter (\<lambda>p. p_role p = ''owner'' \<and> p_user_id p \<noteq> u) (profiles d)
          = filter (\<lambda>p. p_role p = ''owner'') (profiles d)"
    by (rule filter_cong) (auto dest: notme)
  have run: "getUsers no_fault d u = Reply 200 True None (Profiles (otherOwners d u))"
    using cur role by (simp add: getUsers_def no_fault_def)
  have "\<forall>p \<in> set (otherOwners d u). p_user_id p \<noteq> u \<and> p_role p \<noteq> ''housekeeper''"
    by (auto simp: otherOwners_def)
  with run eq show ?thesis
    by (auto simp: mset_otherOwners sorted_otherOwners)
qed

theorem getUsers_housekeeper_witness:
  "single (filter (\<lambda>p. p_user_id p = ''u-amy'') (profiles contacts_db)) = Some amy
   \<and> p_role amy = ''housekeeper''
   \<and> (\<exists>ps. getUsers no_fault contacts_db ''u-amy'' = Reply 200 True None (Profiles ps)
            \<and> mset ps = mset (filter (\<lambda>p. p_role p = ''owner'') (profiles contacts_db))
            \<and> sorted (map p_name ps)
            \<and> (\<forall>p \<in> set ps. p_user_id p \<noteq> ''u-amy'' \<and> p_role p \<noteq> ''housekeeper''))"
proof -
  have h1: "single (filter (\<lambda>p. p_user_id p = ''u-amy'') (profiles contacts_db)) = Some amy"
    by (simp add: contacts_db_def zoe_def carl_def amy_def dora_def)
  have h2: "p_role amy = ''housekeeper''"
    by (simp add: amy_def)
  show ?thesis
    by (rule conjI [OF h1 conjI [OF h2 getUsers_housekeeper [OF h1 h2]]])
qed

text \<open>
  Claim C2. A requester whose stored role is owner gets, with status 200, two lists one
  after the other: the owner profiles of the other users, ascending by name, and then
  the housekeeper profiles that share a message row with the requester in either
  direction (delete flags are not looked at), ascending by name. The requester is in
  neither list.
\<close>

theorem getUsers_owner:
  assumes cur: "single (filter (\<lambda>p. p_user_id p = u) (profiles d)) = Some cp"
    and role: "p_role cp = ''owner''"
  shows "\<exists>owners housekeepers.
           getUsers no_fault d u = Reply 200 True None (Profiles (owners @ housekeepers))
         \<and> mset owners
             = mset (filter (\<lambda>p. p_role p = ''owner'' \<and> p_user_id p \<noteq> u) (profiles d))
         \<and> sorted (map p_name owners)
         \<and> mset housekeepers
             = mset (filter (\<lambda>p. p_role p = ''housekeeper'' \<and> hasConversation d u (p_user_id p))
                       (profiles d))
         \<and> sorted (map p_name housekeepers)
         \<and> (\<forall>p \<in> set (owners @ housekeepers). p_user_id p \<noteq> u)"
proof -
  define ids where
    "ids = conversedUserIds u (filter (\<lambda>m. sender_id m = u \<or> receiver_id m = u) (messages d))"
  define hks where
    "hks = sort_key p_name
             (filter (\<lambda>p. p_role p = ''housekeeper'' \<and> p_user_id p \<in> set ids) (profiles d))"
  have notme: "p_user_id p \<noteq> u" if "p \<in> set (profiles d)" "p_role p = ''housekeeper''" for p
  proof
    assume "p_user_id p = u"
    with cur that(1) have "p = cp" by (rule single_filter_unique)
    with role that(2) show False by simp
  qed
  have eq: "filter (\<lambda>p. p_role p = ''housekeeper'' \<and> p_user_id p \<in> set ids) (profiles d)
          = filter (\<lambda>p. p_role p = ''housekeeper'' \<and> hasConversation d u (p_user_id p)) (profiles d)"
    by (rule filter_cong) (auto simp: ids_def conversed_iff dest: notme)
  have empty: "hks = []" if "ids = []"
    using that by (simp add: hks_def)
  have run: "getUsers no_fault d u = Reply 200 True None (Profiles (otherOwners d u @ hks))"
    using cur role empty
    by (simp add: getUsers_def no_fault_def Let_def ids_def [symmetric] hks_def [symmetric])
  have "\<forall>p \<in> set (otherOwners d u @ hks). p_user_id p \<noteq> u"
    by (auto simp: otherOwners_def hks_def dest: notme)
  moreover have "mset hks
     = mset (filter (\<lambda>p. p_role p = ''housekeeper'' \<and> hasConversation d u (p_user_id p)) (profiles d))"
    by (simp add: hks_def eq)
  moreover have "sorted (map p_name hks)"
    by (simp add: hks_def)
  ultimately show ?thesis
    using run mset_otherOwners sorted_otherOwners by blast
qed

theorem getUsers_owner_witness:
  "single (filter (\<lambda>p. p_user_id p = ''u-zoe'') (profiles contacts_db)) = Some zoe
   \<and> p_role zoe = ''owner''
   \<and> (\<exists>owners housekeepers.
           getUsers no_fault contacts_db ''u-zoe''
             = Reply 200 True None (Profiles (owners @ housekeepers))
         \<and> mset owners
             = mset (filter (\<lambda>p. p_role p = ''owner'' \<and> p_user_id p \<noteq> ''u-zoe'')
                       (profiles contacts_db))
         \<and> sorted (map p_name owners)
         \<and> mset housekeepers
             = mset (filter (\<lambda>p. p_role p = ''housekeeper''
                                 \<and> hasConversation contacts_db ''u-zoe'' (p_user_id p))
                       (profiles contacts_db))
         \<and> sorted (map p_name housekeepers)
         \<and> (\<forall>p \<in> set (owners @ housekeepers). p_user_id p \<noteq> ''u-zoe''))"
proof -
  have h1: "single (filter (\<lambda>p. p_user_id p = ''u-zoe'') (profiles contacts_db)) = Some zoe"
    by (simp add: contacts_db_def zoe_def carl_def amy_def dora_def)
  have h2: "p_role zoe = ''owner''"
    by (simp add: zoe_def)
  show ?thesis
    by (rule conjI [OF h1 conjI [OF h2 getUsers_owner [OF h1 h2]]])
qed

text \<open>
  In \<open>contacts_db\<close> Zoe, an owner, sees the other owner and then the housekeeper whose
  deleted message she once received: the two groups follow each other, and the list as a
  whole is not in name order. Amy, a housekeeper, sees the two owners by name.
\<close>

lemma getUsers_examples:
  "getUsers no_fault contacts_db ''u-zoe'' = Reply 200 True None (Profiles [carl, amy])"
  "\<not> sorted (map p_name [carl, amy])"
  "getUsers no_fault contacts_db ''u-amy'' = Reply 200 True None (Profiles [carl, zoe])"
  by (simp_all add: getUsers_def no_fault_def otherOwners_def conversedUserIds_def set_add_def
      contacts_db_def zoe_def carl_def amy_def dora_def amy_to_zoe_def)




section \<open>Conversations\<close>




text \<open>
  The comparator sees dates, which hold milliseconds: two messages within the same
  millisecond compare equal, whatever their microseconds. In \<open>submilli_db\<close> Zoe's view
  lists her own message before the one Amy sent 800 microseconds earlier.
\<close>

lemma getConversation_same_millisecond:
  "getConversation no_fault submilli_db ''u-zoe'' ''u-amy''
     = Reply 200 True None (Messages [zoe_late, amy_early])
   \<and> m_created_at amy_early < m_created_at zoe_late"
  by (simp add: getConversation_def no_fault_def submilli_db_def zoe_late_def amy_early_def
      sentMessages_def receivedMessages_def jsDate_def)

section \<open>Deleting messages\<close>

text \<open>
  Claim C4. With \<open>deleteForEveryone = true\<close> on a stored message, every requester other
  than its sender is answered 403 and the store is left as it was (the receiver with the
  message that only the sender may do this). For the sender the reply is a success,
  no row is removed, both delete flags of the row are set, and afterwards no
  conversation view of any user holds the message.
\<close>

theorem deleteMessage_forEveryone:
  assumes found: "single (filter (\<lambda>x. m_id x = mid) (messages d)) = Some m"
    and fe: "b ''deleteForEveryone'' = JBool True"
  shows "(r \<noteq> sender_id m \<longrightarrow>
            status (fst (deleteMessage no_fault d r mid b)) = 403
          \<and> snd (deleteMessage no_fault d r mid b) = d)
       \<and> (r \<noteq> sender_id m \<and> r = receiver_id m \<longrightarrow>
            fst (deleteMessage no_fault d r mid b)
              = Reply 403 False (Some ''Only the sender can delete messages for everyone'') NoData)
       \<and> (r = sender_id m \<longrightarrow>
            fst (deleteMessage no_fault d r mid b)
              = Reply 200 True (Some ''Message deleted for everyone'') NoData
          \<and> map m_id (messages (snd (deleteMessage no_fault d r mid b))) = map m_id (messages d)
          \<and> (\<forall>x \<in> set (messages (snd (deleteMessage no_fault d r mid b))).
                m_id x = mid \<longrightarrow> deleted_for_sender x \<and> deleted_for_receiver x)
          \<and> (\<forall>u other ms.
                getConversation no_fault (snd (deleteMessage no_fault d r mid b)) u other
                  = Reply 200 True None (Messages ms)
                \<longrightarrow> mid \<notin> m_id ` set ms))"
proof (intro conjI impI)
  assume "r \<noteq> sender_id m"
  then show "status (fst (deleteMessage no_fault d r mid b)) = 403"
    and "snd (deleteMessage no_fault d r mid b) = d"
    using found fe by (simp_all add: deleteMessage_def no_fault_def Let_def)
next
  assume "r \<noteq> sender_id m \<and> r = receiver_id m"
  then have "sender_id m \<noteq> r" "receiver_id m = r" by auto
  then show "fst (deleteMessage no_fault d r mid b)
      = Reply 403 False (Some ''Only the sender can delete messages for everyone'') NoData"
    using found fe by (simp add: deleteMessage_def no_fault_def Let_def)
next
  assume r: "r = sender_id m"
  let ?d' = "update_message mid
               (\<lambda>m. m\<lparr>deleted_for_sender := True, deleted_for_receiver := True\<rparr>) d"
  have run: "deleteMessage no_fault d r mid b
      = (Reply 200 True (Some ''Message deleted for everyone'') NoData, ?d')"
    using found fe r by (simp add: deleteMessage_def no_fault_def Let_def)
  show "fst (deleteMessage no_fault d r mid b)
      = Reply 200 True (Some ''Message deleted for everyone'') NoData"
    by (simp add: run)
  show "map m_id (messages (snd (deleteMessage no_fault d r mid b))) = map m_id (messages d)"
    by (simp add: run messages_update_message)
  show flags: "\<forall>x \<in> set (messages (snd (deleteMessage no_fault d r mid b))).
      m_id x = mid \<longrightarrow> deleted_for_sender x \<and> deleted_for_receiver x"
    unfolding run snd_conv using flags_after_update by blast
  show "\<forall>u other ms.
      getConversation no_fault (snd (deleteMessage no_fault d r mid b)) u other
        = Reply 200 True None (Messages ms)
      \<longrightarrow> mid \<notin> m_id ` set ms"
  proof (intro allI impI notI)
    fix u other ms
    assume view: "getConversation no_fault (snd (deleteMessage no_fault d r mid b)) u other
        = Reply 200 True None (Messages ms)"
      and "mid \<in> m_id ` set ms"
    then obtain x where x: "x \<in> set ms" "m_id x = mid" by auto
    from conversation_members [OF view x(1)] flags x(2) show False by blast
  qed
qed

theorem deleteMessage_forEveryone_witness:
  "single (filter (\<lambda>x. m_id x = ''m1'') (messages tie_db)) = Some amy_first
   \<and> for_everyone ''deleteForEveryone'' = JBool True
   \<and> ''u-zoe'' \<noteq> sender_id amy_first \<and> ''u-zoe'' = receiver_id amy_first
   \<and> fst (deleteMessage no_fault tie_db ''u-zoe'' ''m1'' for_everyone)
       = Reply 403 False (Some ''Only the sender can delete messages for everyone'') NoData
   \<and> snd (deleteMessage no_fault tie_db ''u-zoe'' ''m1'' for_everyone) = tie_db
   \<and> ''u-amy'' = sender_id amy_first
   \<and> fst (deleteMessage no_fault tie_db ''u-amy'' ''m1'' for_everyone)
       = Reply 200 True (Some ''Message deleted for everyone'') NoData
   \<and> (\<exists>ms. getConversation no_fault
               (snd (deleteMessage no_fault tie_db ''u-amy'' ''m1'' for_everyone))
               ''u-amy'' ''u-zoe''
             = Reply 200 True None (Messages ms)
           \<and> ''m1'' \<notin> m_id ` set ms)
   \<and> (\<exists>ms. getConversation no_fault
               (snd (deleteMessage no_fault tie_db ''u-amy'' ''m1'' for_everyone))
               ''u-zoe'' ''u-amy''
             = Reply 200 True None (Messages ms)
           \<and> ''m1'' \<notin> m_id ` set ms)"
proof -
  have h1: "single (filter (\<lambda>x. m_id x = ''m1'') (messages tie_db)) = Some amy_first"
    by (simp add: tie_db_def amy_first_def zoe_second_def)
  have h2: "for_everyone ''deleteForEveryone'' = JBool True"
    by (simp add: for_everyone_def)
  have z: "''u-zoe'' \<noteq> sender_id amy_first" "''u-zoe'' = receiver_id amy_first"
    and a: "''u-amy'' = sender_id amy_first"
    by (simp_all add: amy_first_def)
  from deleteMessage_forEveryone [where b = for_everyone and r = "''u-zoe''", OF h1 h2] z
  have zoe_refused:
    "fst (deleteMessage no_fault tie_db ''u-zoe'' ''m1'' for_everyone)
       = Reply 403 False (Some ''Only the sender can delete messages for everyone'') NoData"
    "snd (deleteMessage no_fault tie_db ''u-zoe'' ''m1'' for_everyone) = tie_db"
    by blast+
  from deleteMessage_forEveryone [where b = for_everyone and r = "''u-amy''", OF h1 h2] a
  have amy_unsends:
    "fst (deleteMessage no_fault tie_db ''u-amy'' ''m1'' for_everyone)
       = Reply 200 True (Some ''Message deleted for everyone'') NoData"
    and absent: "\<forall>u other ms.
         getConversation no_fault
             (snd (deleteMessage no_fault tie_db ''u-amy'' ''m1'' for_everyone)) u other
           = Reply 200 True None (Messages ms)
         \<longrightarrow> ''m1'' \<notin> m_id ` set ms"
    by blast+
  have view: "\<exists>ms. getConversation no_fault
               (snd (deleteMessage no_fault tie_db ''u-amy'' ''m1'' for_everyone)) u other
             = Reply 200 True None (Messages ms)
           \<and> ''m1'' \<notin> m_id ` set ms" for u other
    using absent by (simp add: getConversation_def no_fault_def)
  from h1 h2 z a zoe_refused amy_unsends view [of "''u-amy''" "''u-zoe''"]
    view [of "''u-zoe''" "''u-amy''"]
  show ?thesis
    by (intro conjI)
qed

text \<open>
  Claim C5. With \<open>deleteForEveryone\<close> other than \<open>true\<close>, a requester who is the sender
  or the receiver of a stored message (sender and receiver being distinct, as for every
  message that \<open>sendMessage\<close> inserts) is answered 200. No row is added or removed;
  the ids, senders, receivers, bodies and dates of all rows, and the two other tables,
  stay as they were. Only the flag of the requester's side of that row is set; the flag
  of the other side stays as it was in every row.
\<close>

theorem deleteMessage_forMe:
  assumes found: "single (filter (\<lambda>x. m_id x = mid) (messages d)) = Some m"
    and party: "r = sender_id m \<or> r = receiver_id m"
    and distinct: "sender_id m \<noteq> receiver_id m"
    and fe: "b ''deleteForEveryone'' \<noteq> JBool True"
  shows "status (fst (deleteMessage no_fault d r mid b)) = 200
       \<and> users (snd (deleteMessage no_fault d r mid b)) = users d
       \<and> profiles (snd (deleteMessage no_fault d r mid b)) = profiles d
       \<and> map m_id (messages (snd (deleteMessage no_fault d r mid b))) = map m_id (messages d)
       \<and> map sender_id (messages (snd (deleteMessage no_fault d r mid b)))
           = map sender_id (messages d)
       \<and> map receiver_id (messages (snd (deleteMessage no_fault d r mid b)))
           = map receiver_id (messages d)
       \<and> map m_message (messages (snd (deleteMessage no_fault d r mid b)))
           = map m_message (messages d)
       \<and> map m_created_at (messages (snd (deleteMessage no_fault d r mid b)))
           = map m_created_at (messages d)
       \<and> (r = sender_id m \<longrightarrow>
            map deleted_for_sender (messages (snd (deleteMessage no_fault d r mid b)))
              = map (\<lambda>x. m_id x = mid \<or> deleted_for_sender x) (messages d)
          \<and> map deleted_for_receiver (messages (snd (deleteMessage no_fault d r mid b)))
              = map deleted_for_receiver (messages d))
       \<and> (r = receiver_id m \<longrightarrow>
            map deleted_for_receiver (messages (snd (deleteMessage no_fault d r mid b)))
              = map (\<lambda>x. m_id x = mid \<or> deleted_for_receiver x) (messages d)
          \<and> map deleted_for_sender (messages (snd (deleteMessage no_fault d r mid b)))
              = map deleted_for_sender (messages d))"
proof (cases "r = sender_id m")
  case True
  have run: "deleteMessage no_fault d r mid b
      = (Reply 200 True
           (Some (if truthy (b ''deleteForEveryone'') then ''Message deleted for everyone''
                  else ''Message deleted for you'')) NoData,
         update_message mid (\<lambda>m. m\<lparr>deleted_for_sender := True\<rparr>) d)"
    using found fe True by (simp add: deleteMessage_def no_fault_def Let_def)
  from True distinct have "r \<noteq> receiver_id m" by simp
  with True show ?thesis
    unfolding run by (simp add: messages_update_message update_message_frame)
next
  case False
  with party have rcv: "r = receiver_id m" by simp
  have run: "deleteMessage no_fault d r mid b
      = (Reply 200 True
           (Some (if truthy (b ''deleteForEveryone'') then ''Message deleted for everyone''
                  else ''Message deleted for you'')) NoData,
         update_message mid (\<lambda>m. m\<lparr>deleted_for_receiver := True\<rparr>) d)"
    using found fe False rcv by (simp add: deleteMessage_def no_fault_def Let_def)
  from False show ?thesis
    unfolding run by (simp add: messages_update_message update_message_frame)
qed

theorem deleteMessage_forMe_witness:
  "single (filter (\<lambda>x. m_id x = ''m1'') (messages tie_db)) = Some amy_first
   \<and> (''u-zoe'' = sender_id amy_first \<or> ''u-zoe'' = receiver_id amy_first)
   \<and> sender_id amy_first \<noteq> receiver_id amy_first
   \<and> for_me ''deleteForEveryone'' \<noteq> JBool True
   \<and> status (fst (deleteMessage no_fault tie_db ''u-zoe'' ''m1'' for_me)) = 200
   \<and> map m_id (messages (snd (deleteMessage no_fault tie_db ''u-zoe'' ''m1'' for_me)))
       = [''m1'', ''m2'']
   \<and> map deleted_for_receiver
         (messages (snd (deleteMessage no_fault tie_db ''u-zoe'' ''m1'' for_me)))
       = [True, False]
   \<and> map deleted_for_sender
         (messages (snd (deleteMessage no_fault tie_db ''u-zoe'' ''m1'' for_me)))
       = [False, False]"
proof -
  have h1: "single (filter (\<lambda>x. m_id x = ''m1'') (messages tie_db)) = Some amy_first"
    by (simp add: tie_db_def amy_first_def zoe_second_def)
  have h2: "''u-zoe'' = sender_id amy_first \<or> ''u-zoe'' = receiver_id amy_first"
    and h3: "sender_id amy_first \<noteq> receiver_id amy_first"
    and rcv: "''u-zoe'' = receiver_id amy_first"
    by (simp_all add: amy_first_def)
  have h4: "for_me ''deleteForEveryone'' \<noteq> JBool True"
    by (simp add: for_me_def)
  have rows: "map m_id (messages tie_db) = [''m1'', ''m2'']"
    "map (\<lambda>x. m_id x = ''m1'' \<or> deleted_for_receiver x) (messages tie_db) = [True, False]"
    "map deleted_for_sender (messages tie_db) = [False, False]"
    by (simp_all add: tie_db_def amy_first_def zoe_second_def)
  from deleteMessage_forMe [where b = for_me, OF h1 h2 h3 h4] rcv rows
  have "status (fst (deleteMessage no_fault tie_db ''u-zoe'' ''m1'' for_me)) = 200"
    "map m_id (messages (snd (deleteMessage no_fault tie_db ''u-zoe'' ''m1'' for_me)))
       = [''m1'', ''m2'']"
    "map deleted_for_receiver
         (messages (snd (deleteMessage no_fault tie_db ''u-zoe'' ''m1'' for_me)))
       = [True, False]"
    "map deleted_for_sender
         (messages (snd (deleteMessage no_fault tie_db ''u-zoe'' ''m1'' for_me)))
       = [False, False]"
    by simp_all
  with h1 h2 h3 h4 show ?thesis
    by (intro conjI)
qed




section \<open>Sending messages\<close>

text \<open>
  Claim C1. Take a send request that has passed the checks before the access rules (the
  body is valid, the receiver is a row of \<open>users\<close> and is not the sender) and whose sender
  has a profile. Whether it is refused depends only on the sender's role, the receiver's
  role and the existence of a message row between the two in either direction: owner
  to owner reaches the insert; owner to housekeeper reaches the insert when such a row
  exists (its delete flags are not read) and is otherwise answered 403 with the store
  unchanged; a housekeeper always reaches the insert.
\<close>

theorem sendMessage_permission:
  assumes valid: "validateRequiredFields b [''receiver_id'', ''message''] = Inr Valid"
    and rcv: "b ''receiver_id'' = JStr r"
    and msg: "b ''message'' = JStr text"
    and found: "single (filter (\<lambda>u. u_id u = r) (users d)) = Some ru"
    and notself: "s \<noteq> r"
    and sp: "single (filter (\<lambda>p. p_user_id p = s) (profiles d)) = Some senderProfile"
  shows "(p_role senderProfile = ''owner''
          \<and> map_option p_role (single (filter (\<lambda>p. p_user_id p = r) (profiles d)))
              = Some ''owner''
          \<longrightarrow> sendMessage no_fault newId now d s b
                = send_insert no_fault newId now d s r (trim text))
       \<and> (p_role senderProfile = ''owner''
          \<and> map_option p_role (single (filter (\<lambda>p. p_user_id p = r) (profiles d)))
              = Some ''housekeeper''
          \<and> hasConversation d s r
          \<longrightarrow> sendMessage no_fault newId now d s b
                = send_insert no_fault newId now d s r (trim text))
       \<and> (p_role senderProfile = ''owner''
          \<and> map_option p_role (single (filter (\<lambda>p. p_user_id p = r) (profiles d)))
              = Some ''housekeeper''
          \<and> \<not> hasConversation d s r
          \<longrightarrow> sendMessage no_fault newId now d s b
                = (Reply 403 False
                     (Some ''You can only message housekeepers who have messaged you first'')
                     NoData, d))
       \<and> (p_role senderProfile = ''housekeeper''
          \<longrightarrow> sendMessage no_fault newId now d s b
                = send_insert no_fault newId now d s r (trim text))"
proof -
  note run = sendMessage_checked [OF valid rcv msg found notself]
  have owner: "conversationGate no_fault d s r =
           (if role = ''housekeeper'' \<and> \<not> hasConversation d s r
            then Some (Reply 403 False
                   (Some ''You can only message housekeepers who have messaged you first'')
                   NoData)
            else None)"
    if "p_role senderProfile = ''owner''"
      and "map_option p_role (single (filter (\<lambda>p. p_user_id p = r) (profiles d))) = Some role"
    for role
  proof -
    from that(2) obtain rp
      where "single (filter (\<lambda>p. p_user_id p = r) (profiles d)) = Some rp" "p_role rp = role"
      by auto
    with conversationGate_owner [OF sp that(1)] show ?thesis by simp
  qed
  have other: "conversationGate no_fault d s r = None" if "p_role senderProfile = ''housekeeper''"
    using sp by (rule conversationGate_not_owner) (simp add: that)
  show ?thesis
  proof (intro conjI impI)
    assume "p_role senderProfile = ''owner''
          \<and> map_option p_role (single (filter (\<lambda>p. p_user_id p = r) (profiles d)))
              = Some ''owner''"
    then have "conversationGate no_fault d s r = None" using owner [of "''owner''"] by simp
    then show "sendMessage no_fault newId now d s b
                = send_insert no_fault newId now d s r (trim text)"
      by (simp add: run)
  next
    assume "p_role senderProfile = ''owner''
          \<and> map_option p_role (single (filter (\<lambda>p. p_user_id p = r) (profiles d)))
              = Some ''housekeeper''
          \<and> hasConversation d s r"
    then have "conversationGate no_fault d s r = None" using owner [of "''housekeeper''"] by simp
    then show "sendMessage no_fault newId now d s b
                = send_insert no_fault newId now d s r (trim text)"
      by (simp add: run)
  next
    assume "p_role senderProfile = ''owner''
          \<and> map_option p_role (single (filter (\<lambda>p. p_user_id p = r) (profiles d)))
              = Some ''housekeeper''
          \<and> \<not> hasConversation d s r"
    then have "conversationGate no_fault d s r = Some (Reply 403 False
                   (Some ''You can only message housekeepers who have messaged you first'')
                   NoData)" using owner [of "''housekeeper''"] by simp
    then show "sendMessage no_fault newId now d s b
                = (Reply 403 False
                     (Some ''You can only message housekeepers who have messaged you first'')
                     NoData, d)"
      by (simp add: run)
  next
    assume "p_role senderProfile = ''housekeeper''"
    then have "conversationGate no_fault d s r = None" by (rule other)
    then show "sendMessage no_fault newId now d s b
                = send_insert no_fault newId now d s r (trim text)"
      by (simp add: run)
  qed
qed

theorem sendMessage_permission_witness:
  "(p_role zoe = ''owner'' \<and> hasConversation contacts_db ''u-zoe'' ''u-amy''
    \<and> \<not> hasConversation contacts_db ''u-zoe'' ''u-dora'')
   \<and> sendMessage no_fault ''m9'' 7000000 contacts_db ''u-zoe'' (send_body ''u-carl'' '' hello '')
       = send_insert no_fault ''m9'' 7000000 contacts_db ''u-zoe'' ''u-carl'' (trim '' hello '')
   \<and> sendMessage no_fault ''m9'' 7000000 contacts_db ''u-zoe'' (send_body ''u-amy'' '' hello '')
       = send_insert no_fault ''m9'' 7000000 contacts_db ''u-zoe'' ''u-amy'' (trim '' hello '')
   \<and> sendMessage no_fault ''m9'' 7000000 contacts_db ''u-zoe'' (send_body ''u-dora'' '' hello '')
       = (Reply 403 False
            (Some ''You can only message housekeepers who have messaged you first'')
            NoData, contacts_db)
   \<and> (p_role amy = ''housekeeper''
      \<and> sendMessage no_fault ''m9'' 7000000 contacts_db ''u-amy'' (send_body ''u-carl'' '' hello '')
          = send_insert no_fault ''m9'' 7000000 contacts_db ''u-amy'' ''u-carl''
              (trim '' hello ''))"
proof -
  let ?users = "users contacts_db" and ?profiles = "profiles contacts_db"
  have valid:
    "validateRequiredFields (send_body ''u-carl'' '' hello '') [''receiver_id'', ''message'']
       = Inr Valid"
    "validateRequiredFields (send_body ''u-amy'' '' hello '') [''receiver_id'', ''message'']
       = Inr Valid"
    "validateRequiredFields (send_body ''u-dora'' '' hello '') [''receiver_id'', ''message'']
       = Inr Valid"
    by (simp_all add: send_body_def trim_def isWhiteSpace_def)
  have rcv: "send_body r '' hello '' ''receiver_id'' = JStr r"
    and msg: "send_body r '' hello '' ''message'' = JStr '' hello ''" for r
    by (simp_all add: send_body_def)
  have u_carl: "single (filter (\<lambda>u. u_id u = ''u-carl'') ?users) = Some (user_of carl)"
    and u_amy: "single (filter (\<lambda>u. u_id u = ''u-amy'') ?users) = Some (user_of amy)"
    and u_dora: "single (filter (\<lambda>u. u_id u = ''u-dora'') ?users) = Some (user_of dora)"
    by (simp_all add: contacts_db_def user_of_def zoe_def carl_def amy_def dora_def)
  have p_zoe: "single (filter (\<lambda>p. p_user_id p = ''u-zoe'') ?profiles) = Some zoe"
    and p_amy: "single (filter (\<lambda>p. p_user_id p = ''u-amy'') ?profiles) = Some amy"
    by (simp_all add: contacts_db_def zoe_def carl_def amy_def dora_def)
  have roles: "p_role zoe = ''owner''" "p_role amy = ''housekeeper''"
    by (simp_all add: zoe_def amy_def)
  have r_carl: "map_option p_role (single (filter (\<lambda>p. p_user_id p = ''u-carl'') ?profiles))
                  = Some ''owner''"
    and r_amy: "map_option p_role (single (filter (\<lambda>p. p_user_id p = ''u-amy'') ?profiles))
                  = Some ''housekeeper''"
    and r_dora: "map_option p_role (single (filter (\<lambda>p. p_user_id p = ''u-dora'') ?profiles))
                  = Some ''housekeeper''"
    by (simp_all add: contacts_db_def zoe_def carl_def amy_def dora_def)
  have conv: "hasConversation contacts_db ''u-zoe'' ''u-amy''"
      "\<not> hasConversation contacts_db ''u-zoe'' ''u-dora''"
    by (simp_all add: hasConversation_def contacts_db_def amy_to_zoe_def)
  have ne: "''u-zoe'' \<noteq> ''u-carl''" "''u-zoe'' \<noteq> ''u-amy''" "''u-zoe'' \<noteq> ''u-dora''"
      "''u-amy'' \<noteq> ''u-carl''"
    by simp_all
  from sendMessage_permission [where b = "send_body ''u-carl'' '' hello ''",
      OF valid(1) rcv msg u_carl ne(1) p_zoe, of "''m9''" 7000000] roles r_carl
  have to_owner:
    "sendMessage no_fault ''m9'' 7000000 contacts_db ''u-zoe'' (send_body ''u-carl'' '' hello '')
       = send_insert no_fault ''m9'' 7000000 contacts_db ''u-zoe'' ''u-carl'' (trim '' hello '')"
    by blast
  from sendMessage_permission [where b = "send_body ''u-amy'' '' hello ''",
      OF valid(2) rcv msg u_amy ne(2) p_zoe, of "''m9''" 7000000] roles r_amy conv
  have to_known:
    "sendMessage no_fault ''m9'' 7000000 contacts_db ''u-zoe'' (send_body ''u-amy'' '' hello '')
       = send_insert no_fault ''m9'' 7000000 contacts_db ''u-zoe'' ''u-amy'' (trim '' hello '')"
    by blast
  from sendMessage_permission [where b = "send_body ''u-dora'' '' hello ''",
      OF valid(3) rcv msg u_dora ne(3) p_zoe, of "''m9''" 7000000] roles r_dora conv
  have to_stranger:
    "sendMessage no_fault ''m9'' 7000000 contacts_db ''u-zoe'' (send_body ''u-dora'' '' hello '')
       = (Reply 403 False
            (Some ''You can only message housekeepers who have messaged you first'')
            NoData, contacts_db)"
    by blast
  from sendMessage_permission [where b = "send_body ''u-carl'' '' hello ''",
      OF valid(1) rcv msg u_carl ne(4) p_amy, of "''m9''" 7000000] roles
  have from_housekeeper:
    "sendMessage no_fault ''m9'' 7000000 contacts_db ''u-amy'' (send_body ''u-carl'' '' hello '')
       = send_insert no_fault ''m9'' 7000000 contacts_db ''u-amy'' ''u-carl'' (trim '' hello '')"
    by blast
  from roles conv to_owner to_known to_stranger from_housekeeper show ?thesis
    by (intro conjI)
qed

text \<open>
  Claim C10. For a send request whose \<open>message\<close> is a string: when the validator
  accepts the body the string does not trim to the empty string; a string that does is
  turned down by the validator itself with \<open>message is required\<close> (and this is the
  reply of \<open>sendMessage\<close> once \<open>receiver_id\<close> has passed); so \<open>sendMessage\<close> never
  answers \<open>Message cannot be empty\<close>, whatever the store, the faults and the sender.
\<close>

theorem sendMessage_empty_unreachable:
  assumes msg: "b ''message'' = JStr text"
  shows "(validateRequiredFields b [''receiver_id'', ''message''] = Inr Valid
            \<longrightarrow> trim text \<noteq> [])
       \<and> (trim text = []
            \<longrightarrow> validateRequiredFields b [''message''] = Inr (Invalid ''message is required''))
       \<and> (trim text = [] \<and> validateRequiredFields b [''receiver_id''] = Inr Valid
            \<longrightarrow> sendMessage flt newId now d s b
                  = (Reply 400 False (Some ''message is required'') NoData, d))
       \<and> fst (sendMessage flt newId now d s b)
           \<noteq> Reply 400 False (Some ''Message cannot be empty'') NoData"
proof (intro conjI impI)
  assume "validateRequiredFields b [''receiver_id'', ''message''] = Inr Valid"
  from validated_string [OF this, of "''message''"] msg show "trim text \<noteq> []"
    by simp
next
  assume "trim text = []"
  then show "validateRequiredFields b [''message''] = Inr (Invalid ''message is required'')"
    using msg by simp
next
  assume a: "trim text = [] \<and> validateRequiredFields b [''receiver_id''] = Inr Valid"
  then have "validateRequiredFields b [''receiver_id'', ''message'']
      = Inr (Invalid ''message is required'')"
    using msg by (auto split: if_splits json.splits)
  then show "sendMessage flt newId now d s b
      = (Reply 400 False (Some ''message is required'') NoData, d)"
    by (simp add: sendMessage_def)
next
  let ?target = "Reply 400 False (Some ''Message cannot be empty'') NoData"
  show "fst (sendMessage flt newId now d s b) \<noteq> ?target"
  proof (cases "validateRequiredFields b [''receiver_id'', ''message'']")
    case (Inl e)
    then show ?thesis by (simp add: sendMessage_def send_failed_def)
  next
    case (Inr v)
    show ?thesis
    proof (cases v)
      case (Invalid m)
      with Inr invalid_names_field [of b "[''receiver_id'', ''message'']" m]
      have "m = ''receiver_id is required'' \<or> m = ''message is required''" by auto
      then have "m \<noteq> ''Message cannot be empty''" by auto
      with Inr Invalid show ?thesis by (simp add: sendMessage_def)
    next
      case Valid
      with Inr have valid: "validateRequiredFields b [''receiver_id'', ''message''] = Inr Valid"
        by simp
      from validated_string [OF valid, of "''message''"] msg have nonblank: "trim text \<noteq> []"
        by simp
      define found where "found = (case b ''receiver_id'' of
                          JStr receiver \<Rightarrow>
                            if flt 0 then None
                            else map_option u_id
                                   (single (filter (\<lambda>u. u_id u = receiver) (users d)))
                        | _ \<Rightarrow> None)"
      have run: "sendMessage flt newId now d s b =
         (case found of
            None \<Rightarrow> (Reply 404 False (Some ''Receiver not found'') NoData, d)
          | Some receiver \<Rightarrow>
              if s = receiver then
                (Reply 400 False (Some ''Cannot send message to yourself'') NoData, d)
              else
                (case conversationGate flt d s receiver of
                   Some r \<Rightarrow> (r, d)
                 | None \<Rightarrow> send_insert flt newId now d s receiver (trim text)))"
        unfolding sendMessage_def Let_def valid msg found_def using nonblank by simp
      show ?thesis
      proof (cases found)
        case None
        then show ?thesis unfolding run by simp
      next
        case (Some receiver)
        show ?thesis
        proof (cases "s = receiver")
          case True
          with Some show ?thesis unfolding run by simp
        next
          case False
          show ?thesis
          proof (cases "conversationGate flt d s receiver")
            case None
            with Some False show ?thesis unfolding run by (simp add: send_insert_reply)
          next
            case (Some rep)
            with \<open>found = Some receiver\<close> False conversationGate_reply [OF Some]
            show ?thesis unfolding run by simp
          qed
        qed
      qed
    qed
  qed
qed

theorem sendMessage_empty_unreachable_witness:
  "send_body ''u-carl'' [CHR '' '', CHR 0x09] ''message'' = JStr [CHR '' '', CHR 0x09]
   \<and> trim [CHR '' '', CHR 0x09] = []
   \<and> validateRequiredFields (send_body ''u-carl'' [CHR '' '', CHR 0x09]) [''receiver_id'']
       = Inr Valid
   \<and> validateRequiredFields (send_body ''u-carl'' [CHR '' '', CHR 0x09]) [''message'']
       = Inr (Invalid ''message is required'')
   \<and> sendMessage no_fault ''m9'' 7000000 contacts_db ''u-zoe''
         (send_body ''u-carl'' [CHR '' '', CHR 0x09])
       = (Reply 400 False (Some ''message is required'') NoData, contacts_db)
   \<and> validateRequiredFields (send_body ''u-carl'' '' hello '') [''receiver_id'', ''message'']
       = Inr Valid
   \<and> trim '' hello '' \<noteq> []"
proof -
  let ?blank = "[CHR '' '', CHR 0x09]"
  have m1: "send_body ''u-carl'' ?blank ''message'' = JStr ?blank"
    and m2: "send_body ''u-carl'' '' hello '' ''message'' = JStr '' hello ''"
    by (simp_all add: send_body_def)
  have blank: "trim ?blank = []"
    by (simp add: trim_def isWhiteSpace_def)
  have rcv: "validateRequiredFields (send_body ''u-carl'' ?blank) [''receiver_id''] = Inr Valid"
    by (simp add: send_body_def trim_def isWhiteSpace_def)
  have valid: "validateRequiredFields (send_body ''u-carl'' '' hello '')
                 [''receiver_id'', ''message''] = Inr Valid"
    by (simp add: send_body_def trim_def isWhiteSpace_def)
  from sendMessage_empty_unreachable [where b = "send_body ''u-carl'' ?blank", OF m1,
      of no_fault "''m9''" 7000000 contacts_db "''u-zoe''"] blank rcv
  have refused:
    "validateRequiredFields (send_body ''u-carl'' ?blank) [''message'']
       = Inr (Invalid ''message is required'')"
    "sendMessage no_fault ''m9'' 7000000 contacts_db ''u-zoe'' (send_body ''u-carl'' ?blank)
       = (Reply 400 False (Some ''message is required'') NoData, contacts_db)"
    by blast+
  from sendMessage_empty_unreachable [where b = "send_body ''u-carl'' '' hello ''", OF m2,
      of no_fault "''m9''" 7000000 contacts_db "''u-zoe''"] valid
  have kept: "trim '' hello '' \<noteq> []"
    by blast
  from m1 blank rcv refused valid kept show ?thesis
    by (intro conjI)
qed

section \<open>Signup and its compensation\<close>

text \<open>
  Claim C9. Whenever signup surfaces the failure of the insert into \<open>profiles\<close>, the
  user row had been inserted, and the store that is left is the one after the delete of
  that row (call site 3) was issued on it. When the store carries the delete out, the
  \<open>users\<close> table is back to what it was before the signup and holds no row with the new
  id. The outcome of the delete is not inspected: the reply is the profile error in
  either case.
\<close>

theorem signup_compensation:
  assumes failed:
    "fst (signup hashPassword generateToken flt newUserId userNow newProfileId profileNow d b)
       = signup_failed (StoreError 2)"
  shows "\<exists>email password name role row d1.
           b ''email'' = JStr email \<and> b ''password'' = JStr password
         \<and> b ''name'' = JStr name \<and> b ''role'' = JStr role
         \<and> \<not> flt 1
         \<and> insert_user newUserId userNow d (toLowerCase email) (hashPassword password)
             = Some (row, d1)
         \<and> u_id row = newUserId \<and> row \<in> set (users d1)
         \<and> (flt 2 \<or> insert_profile newProfileId profileNow d1 newUserId (trim name) role = None)
         \<and> snd (signup hashPassword generateToken flt newUserId userNow newProfileId
                  profileNow d b)
             = (if flt 3 then d1 else delete_user newUserId d1)
         \<and> (\<not> flt 3 \<longrightarrow>
               users (snd (signup hashPassword generateToken flt newUserId userNow
                             newProfileId profileNow d b)) = users d
             \<and> newUserId \<notin> u_id ` set (users (snd (signup hashPassword generateToken flt
                             newUserId userNow newProfileId profileNow d b))))"
proof -
  let ?run = "signup hashPassword generateToken flt newUserId userNow newProfileId profileNow d b"
  let ?fields = "[''email'', ''password'', ''name'', ''role'']"
  have valid: "validateRequiredFields b ?fields = Inr Valid"
  proof (cases "validateRequiredFields b ?fields")
    case (Inl e)
    then have "e = TypeError" by (rule validate_throws_TypeError)
    with Inl failed show ?thesis by (simp add: signup_def signup_failed_def)
  next
    case (Inr v)
    with failed show ?thesis
      by (cases v) (simp_all add: signup_def signup_failed_def)
  qed
  from validated_string [OF valid, of "''email''"] obtain email
    where email: "b ''email'' = JStr email" by auto
  from validated_string [OF valid, of "''password''"] obtain password
    where password: "b ''password'' = JStr password" by auto
  from validated_string [OF valid, of "''name''"] obtain name
    where name: "b ''name'' = JStr name" by auto
  from validated_string [OF valid, of "''role''"] obtain role
    where role: "b ''role'' = JStr role" by auto
  define stored where
    "stored = (if flt 1 then None
               else insert_user newUserId userNow d (toLowerCase email) (hashPassword password))"
  have run: "?run =
     (if \<not> isValidEmail email then
        (Reply 400 False (Some ''Invalid email format'') NoData, d)
      else if \<not> isValidPassword password then
        (Reply 400 False (Some ''Password must be at least 6 characters long'') NoData, d)
      else if \<not> isValidRole role then
        (Reply 400 False
           (Some (''Role must be either 'owner' or 'housekeeper'' @ [CHR 0x27])) NoData, d)
      else if flt 0 then (signup_failed (StoreError 0), d)
      else
        (case single (filter (\<lambda>u. u_email u = toLowerCase email) (users d)) of
           Some existingUser \<Rightarrow>
             (Reply 409 False (Some ''User with this email already exists'') NoData, d)
         | None \<Rightarrow>
             (case stored of
                None \<Rightarrow> (signup_failed (StoreError 1), d)
              | Some (user, d1) \<Rightarrow>
                  (case (if flt 2 then None
                         else insert_profile newProfileId profileNow d1
                                (u_id user) (trim name) role) of
                     None \<Rightarrow>
                       (signup_failed (StoreError 2),
                        if flt 3 then d1 else delete_user (u_id user) d1)
                   | Some (profile, d2) \<Rightarrow>
                       (Reply 201 True (Some ''User registered successfully'')
                          (Registered
                             \<lparr>r_id = u_id user, r_email = u_email user,
                              r_name = p_name profile, r_role = p_role profile,
                              r_created_at = u_created_at user,
                              r_token = generateToken (u_id user) (u_email user)
                                          (p_role profile)\<rparr>),
                        d2)))))"
    unfolding signup_def valid email password name role stored_def Let_def
    by (simp only: sum.case validation.case json.case prod.case)
  from failed obtain row d1 where stored: "stored = Some (row, d1)"
    and profile: "(if flt 2 then None
                   else insert_profile newProfileId profileNow d1 (u_id row) (trim name) role)
                  = None"
    and after: "snd ?run = (if flt 3 then d1 else delete_user (u_id row) d1)"
    unfolding run
    by (auto simp: signup_failed_def split: if_splits option.splits prod.splits)
  from stored have nofault: "\<not> flt 1"
    and ins: "insert_user newUserId userNow d (toLowerCase email) (hashPassword password)
                = Some (row, d1)"
    by (auto simp: stored_def split: if_splits)
  note undone = insert_user_undone [OF ins]
  from profile undone(1)
  have pf: "flt 2 \<or> insert_profile newProfileId profileNow d1 newUserId (trim name) role = None"
    by (auto split: if_splits)
  from after undone(1) have after': "snd ?run = (if flt 3 then d1 else delete_user newUserId d1)"
    by simp
  have gone: "\<not> flt 3 \<longrightarrow> users (snd ?run) = users d
                \<and> newUserId \<notin> u_id ` set (users (snd ?run))"
    using after' undone(2,3) by simp
  from email password name role nofault ins undone(1,4) pf after' gone
  show ?thesis by blast
qed

theorem signup_compensation_witness:
  "fst (signup example_hash example_token profile_insert_fails ''u-nia'' 8000000
          ''p5'' 8000001 contacts_db nia_body)
     = signup_failed (StoreError 2)
   \<and> \<not> profile_insert_fails 3
   \<and> users (snd (signup example_hash example_token profile_insert_fails ''u-nia'' 8000000
                   ''p5'' 8000001 contacts_db nia_body))
       = users contacts_db
   \<and> ''u-nia'' \<notin> u_id ` set (users (snd (signup example_hash example_token
                   profile_insert_fails ''u-nia'' 8000000 ''p5'' 8000001 contacts_db
                   nia_body)))"
proof -
  have carried: "\<not> profile_insert_fails 3"
    by (simp add: profile_insert_fails_def)
  from signup_compensation [OF nia_run [of example_hash example_token]] carried
  have "users (snd (signup example_hash example_token profile_insert_fails ''u-nia''
                   8000000 ''p5'' 8000001 contacts_db nia_body))
       = users contacts_db"
    and "''u-nia'' \<notin> u_id ` set (users (snd (signup example_hash example_token
                   profile_insert_fails ''u-nia'' 8000000 ''p5'' 8000001 contacts_db
                   nia_body)))"
    by blast+
  with nia_run [of example_hash example_token] carried show ?thesis
    by (intro conjI)
qed

end
